theory Spec2Isabelle
  imports Main
begin

section \<open>JavaScript values\<close>

text \<open>
  The two source files, \<^verbatim>\<open>api/cache/queryCache.js\<close> and
  \<^verbatim>\<open>api/server/middleware/queryCache.js\<close>, handle untyped JavaScript values:
  they test them for truthiness, ask \<^verbatim>\<open>typeof v === 'string'\<close>, compare with
  \<^verbatim>\<open>undefined\<close> and read properties with \<^verbatim>\<open>?.\<close>. The values are
  a datatype. A number is an \<open>int\<close> or \<open>NaN\<close>: the code never computes with a
  number, it only tests one for truthiness. An object is the list of its own properties.
  A string is a list of characters; text beyond ASCII stands as the bytes of its UTF-8
  encoding, which are the bytes the digest reads.
\<close>

datatype jsval =
    JUndefined
  | JNull
  | JBool bool
  | JNum int
  | JNaN
  | JStr string
  | JArr "jsval list"
  | JObj "(string \<times> jsval) list"

text \<open>Truthiness, as \<^verbatim>\<open>if (v)\<close>, \<^verbatim>\<open>!v\<close> and \<^verbatim>\<open>a || b\<close> read it.\<close>

fun truthy :: "jsval \<Rightarrow> bool" where
  "truthy JUndefined = False"
| "truthy JNull = False"
| "truthy (JBool b) = b"
| "truthy (JNum n) = (n \<noteq> 0)"
| "truthy JNaN = False"
| "truthy (JStr s) = (s \<noteq> [])"
| "truthy (JArr xs) = True"
| "truthy (JObj kvs) = True"

text \<open>\<^verbatim>\<open>typeof v === 'string'\<close>.\<close>

fun is_string :: "jsval \<Rightarrow> bool" where
  "is_string (JStr s) = True"
| "is_string v = False"

text \<open>\<^verbatim>\<open>a || b\<close>: the left operand when it is truthy, the right one otherwise.\<close>

definition js_or :: "jsval \<Rightarrow> jsval \<Rightarrow> jsval" where
  "js_or a b = (if truthy a then a else b)"

text \<open>
  \<^verbatim>\<open>o?.k\<close>: \<^verbatim>\<open>undefined\<close> on \<^verbatim>\<open>null\<close> and
  \<^verbatim>\<open>undefined\<close>, the property of an object, and \<^verbatim>\<open>undefined\<close> where
  the object has none. The names the code reads (\<^verbatim>\<open>message\<close>,
  \<^verbatim>\<open>query\<close>, \<^verbatim>\<open>q\<close>, \<^verbatim>\<open>id\<close>, \<^verbatim>\<open>_id\<close>,
  \<^verbatim>\<open>data\<close>, \<^verbatim>\<open>result\<close>, \<^verbatim>\<open>timestamp\<close>) are no
  built-in property of a primitive or an array, so these give \<^verbatim>\<open>undefined\<close> too.
  The plain read \<^verbatim>\<open>o.k\<close> stands in the source only behind a truthiness test of
  \<^verbatim>\<open>o\<close> or of \<^verbatim>\<open>o?.k\<close>, where it cannot raise and agrees with
  \<^verbatim>\<open>o?.k\<close>.
\<close>

fun get_prop :: "jsval \<Rightarrow> string \<Rightarrow> jsval" where
  "get_prop (JObj kvs) k = (case map_of kvs k of None \<Rightarrow> JUndefined | Some v \<Rightarrow> v)"
| "get_prop v k = JUndefined"

text \<open>A default parameter \<^verbatim>\<open>p = d\<close>: the default replaces \<^verbatim>\<open>undefined\<close> only.\<close>

definition default_param :: "jsval \<Rightarrow> jsval \<Rightarrow> jsval" where
  "default_param v d = (if v = JUndefined then d else v)"

section \<open>The world, the request and the response\<close>

text \<open>
  The state the code works on. The world has the clock, in milliseconds, and the store
  of the query results (see the section on the store). One request and response cycle
  has the request, the response, the world and the number of times \<^verbatim>\<open>next\<close>
  was called.

  The request has the fields the code reads (\<^verbatim>\<open>body\<close>, \<^verbatim>\<open>query\<close>,
  \<^verbatim>\<open>user\<close>) and the two it writes, the pending-cache marker
  (\<^verbatim>\<open>userQuery\<close>, \<^verbatim>\<open>userId\<close>); a field that is not there is
  \<^verbatim>\<open>undefined\<close>. The response has its status code, its \<^verbatim>\<open>json\<close>
  method and the bodies sent so far. The \<^verbatim>\<open>json\<close> method is Express's own or
  the wrapper that \<^verbatim>\<open>cacheResponseMiddleware\<close> installs around the method it
  found.
\<close>

datatype store_call = StoreGet string | StoreSet string jsval nat | StoreClear

datatype js_error = TypeError | StoreError | ExpressError | HandlerError

record world =
  clock :: nat
  store_up :: bool
  contents :: "string \<rightharpoonup> (jsval \<times> nat)"
  calls :: "store_call list"

datatype json_method = OriginalJson | CachingJson json_method

record request =
  req_body :: jsval
  req_query :: jsval
  req_user :: jsval
  req_userQuery :: jsval
  req_userId :: jsval

record response =
  res_statusCode :: nat
  res_json :: json_method
  res_sent :: "jsval list"

record cycle =
  req :: request
  res :: response
  wld :: world
  next_calls :: nat

section \<open>The runtime\<close>

text \<open>
  What Node and Express supply and the repository does not define is a parameter of
  the model:
  \<^item> the SHA-256 digest of a string in lowercase hexadecimal
    (\<^verbatim>\<open>crypto.createHash('sha256').update(s).digest('hex')\<close>);
  \<^item> the conversion of a value that is not a string to a string inside a template
    literal;
  \<^item> \<^verbatim>\<open>Date.prototype.toISOString\<close> of an instant given in milliseconds;
  \<^item> \<^verbatim>\<open>String.prototype.trim\<close>, which strips the white space and the line
    terminators of ECMAScript, those beyond ASCII included;
  \<^item> whether Express's own \<^verbatim>\<open>res.json\<close> raises for a response and a body
    (the headers were sent already, the body cannot be serialised);
  \<^item> whether \<^verbatim>\<open>next()\<close>, the rest of the pipeline, raises in a cycle.
\<close>

record runtime =
  sha256_hex :: "string \<Rightarrow> string"
  ToString :: "jsval \<Rightarrow> string"
  toISOString :: "nat \<Rightarrow> string"
  String_trim :: "string \<Rightarrow> string"
  express_json_raises :: "response \<Rightarrow> jsval \<Rightarrow> bool"
  next_raises :: "cycle \<Rightarrow> bool"

text \<open>\<^verbatim>\<open>`${v}`\<close>: a string stands for itself.\<close>

fun template_str :: "runtime \<Rightarrow> jsval \<Rightarrow> string" where
  "template_str rt (JStr s) = s"
| "template_str rt v = ToString rt v"

section \<open>The key deriver (api/cache/queryCache.js)\<close>

text \<open>
  \<^verbatim>\<open>
  function createQueryCacheKey(queryText, userId = '') {
    const fullText = `${userId}:${queryText}`;
    return crypto.createHash('sha256').update(fullText).digest('hex').substring(0, 32);
  }
  \<close>
\<close>

definition createQueryCacheKey :: "runtime \<Rightarrow> jsval \<Rightarrow> jsval \<Rightarrow> string" where
  "createQueryCacheKey rt queryText userId0 =
     (let userId = default_param userId0 (JStr '''');
          fullText = template_str rt userId @ '':'' @ template_str rt queryText
      in take 32 (sha256_hex rt fullText))"

text \<open>
  Two texts collide when they differ and the first 32 characters of their digests are
  the same.
\<close>

definition hash_collision :: "runtime \<Rightarrow> string \<Rightarrow> string \<Rightarrow> bool" where
  "hash_collision rt x y = (x \<noteq> y \<and> take 32 (sha256_hex rt x) = take 32 (sha256_hex rt y))"

section \<open>The store\<close>

text \<open>
  Modelled from the spec: the TTL-aware key-value store that
  \<^verbatim>\<open>getLogStores('QUERY_RESULTS')\<close> returns. \<^verbatim>\<open>api/cache/getLogStores.js\<close>
  is not among the source files, so the store follows the spec's interface
  (\<^verbatim>\<open>get(key)\<close> gives the value or absent, \<^verbatim>\<open>set(key, value, ttlMillis)\<close>,
  \<^verbatim>\<open>clear()\<close>) and its glossary (an entry is treated as absent once its
  time-to-live has passed). The namespace is a map from a key to the value and the
  instant the value expires. An operation raises when the store is not available. Every
  operation the code starts is written to a log, whether it raises or not, so that
  "no store access" is a statement about the log.
\<close>

definition store_get :: "string \<Rightarrow> world \<Rightarrow> (js_error + jsval) \<times> world" where
  "store_get k w =
     (let w' = w\<lparr>calls := calls w @ [StoreGet k]\<rparr>
      in if \<not> store_up w then (Inl StoreError, w')
         else (case contents w k of
                 None \<Rightarrow> (Inr JUndefined, w')
               | Some (v, expires) \<Rightarrow>
                   if clock w \<le> expires then (Inr v, w') else (Inr JUndefined, w')))"

definition store_set :: "string \<Rightarrow> jsval \<Rightarrow> nat \<Rightarrow> world \<Rightarrow> (js_error + unit) \<times> world" where
  "store_set k v ttl w =
     (let w' = w\<lparr>calls := calls w @ [StoreSet k v ttl]\<rparr>
      in if \<not> store_up w then (Inl StoreError, w')
         else (Inr (), w'\<lparr>contents := (contents w)(k \<mapsto> (v, clock w + ttl))\<rparr>))"

definition store_clear :: "world \<Rightarrow> (js_error + unit) \<times> world" where
  "store_clear w =
     (let w' = w\<lparr>calls := calls w @ [StoreClear]\<rparr>
      in if \<not> store_up w then (Inl StoreError, w')
         else (Inr (), w'\<lparr>contents := Map.empty\<rparr>))"

text \<open>
  Modelled from the spec: \<^verbatim>\<open>Time.TEN_MINUTES\<close> of
  \<^verbatim>\<open>librechat-data-provider\<close>, the default time-to-live of ten minutes, in
  milliseconds.
\<close>

definition TEN_MINUTES :: nat where
  "TEN_MINUTES = 600000"

section \<open>The accessor (api/cache/queryCache.js)\<close>

text \<open>
  \<^verbatim>\<open>queryText.trim()\<close> is a call of a method: on a value that is no string it
  raises a TypeError. It stands inside the \<^verbatim>\<open>try\<close> blocks.
\<close>

fun js_trim :: "runtime \<Rightarrow> jsval \<Rightarrow> js_error + string" where
  "js_trim rt (JStr s) = Inr (String_trim rt s)"
| "js_trim rt v = Inl TypeError"

text \<open>
  \<^verbatim>\<open>
  async function getCachedQuery(queryText, userId = '') {
    if (!queryText || typeof queryText !== 'string') { return null; }
    try {
      const queryCache = getLogStores('QUERY_RESULTS');
      const cacheKey = createQueryCacheKey(queryText.trim(), userId);
      const result = await queryCache.get(cacheKey);
      if (result) { return result; }
      return null;
    } catch (error) { return null; }
  }
  \<close>
  The body of the \<^verbatim>\<open>try\<close> is a function of its own, with the exception as a
  value; the accessor is the guard and the \<^verbatim>\<open>catch\<close>. Console output is left
  out. Every function returns the world it leaves behind.
\<close>

definition getCachedQuery_try ::
  "runtime \<Rightarrow> jsval \<Rightarrow> jsval \<Rightarrow> world \<Rightarrow> (js_error + jsval) \<times> world" where
  "getCachedQuery_try rt queryText userId w =
     (case js_trim rt queryText of
        Inl e \<Rightarrow> (Inl e, w)
      | Inr trimmed \<Rightarrow>
          (let cacheKey = createQueryCacheKey rt (JStr trimmed) userId
           in case store_get cacheKey w of
                (Inl e, w') \<Rightarrow> (Inl e, w')
              | (Inr result, w') \<Rightarrow>
                  if truthy result then (Inr result, w') else (Inr JNull, w')))"

definition getCachedQuery :: "runtime \<Rightarrow> jsval \<Rightarrow> jsval \<Rightarrow> world \<Rightarrow> jsval \<times> world" where
  "getCachedQuery rt queryText userId0 w =
     (let userId = default_param userId0 (JStr '''')
      in if \<not> truthy queryText \<or> \<not> is_string queryText then (JNull, w)
         else (case getCachedQuery_try rt queryText userId w of
                 (Inl e, w') \<Rightarrow> (JNull, w')
               | (Inr v, w') \<Rightarrow> (v, w')))"

text \<open>
  \<^verbatim>\<open>
  async function setCachedQuery(queryText, result, userId = '', ttl = Time.TEN_MINUTES) {
    if (!queryText || typeof queryText !== 'string' || result === undefined) { return false; }
    try {
      const queryCache = getLogStores('QUERY_RESULTS');
      const cacheKey = createQueryCacheKey(queryText.trim(), userId);
      await queryCache.set(cacheKey,
        { result, query: queryText, timestamp: new Date().toISOString(), userId }, ttl);
      return true;
    } catch (error) { return false; }
  }
  \<close>
  The time-to-live is \<open>None\<close> where the caller leaves the argument out.
\<close>

definition make_entry :: "runtime \<Rightarrow> jsval \<Rightarrow> jsval \<Rightarrow> jsval \<Rightarrow> world \<Rightarrow> jsval" where
  "make_entry rt result queryText userId w =
     JObj [(''result'', result), (''query'', queryText),
           (''timestamp'', JStr (toISOString rt (clock w))), (''userId'', userId)]"

definition setCachedQuery_try ::
  "runtime \<Rightarrow> jsval \<Rightarrow> jsval \<Rightarrow> jsval \<Rightarrow> nat \<Rightarrow> world \<Rightarrow> (js_error + unit) \<times> world" where
  "setCachedQuery_try rt queryText result userId ttl w =
     (case js_trim rt queryText of
        Inl e \<Rightarrow> (Inl e, w)
      | Inr trimmed \<Rightarrow>
          (let cacheKey = createQueryCacheKey rt (JStr trimmed) userId
           in store_set cacheKey (make_entry rt result queryText userId w) ttl w))"

definition setCachedQuery ::
  "runtime \<Rightarrow> jsval \<Rightarrow> jsval \<Rightarrow> jsval \<Rightarrow> nat option \<Rightarrow> world \<Rightarrow> bool \<times> world" where
  "setCachedQuery rt queryText result userId0 ttl0 w =
     (let userId = default_param userId0 (JStr '''');
          ttl = (case ttl0 of None \<Rightarrow> TEN_MINUTES | Some t \<Rightarrow> t)
      in if \<not> truthy queryText \<or> \<not> is_string queryText \<or> result = JUndefined then (False, w)
         else (case setCachedQuery_try rt queryText result userId ttl w of
                 (Inl e, w') \<Rightarrow> (False, w')
               | (Inr u, w') \<Rightarrow> (True, w')))"

text \<open>
  \<^verbatim>\<open>
  async function clearQueryCache() {
    try {
      const queryCache = getLogStores('QUERY_RESULTS');
      await queryCache.clear();
      return true;
    } catch (error) { return false; }
  }
  \<close>
\<close>

definition clearQueryCache :: "world \<Rightarrow> bool \<times> world" where
  "clearQueryCache w =
     (case store_clear w of
        (Inl e, w') \<Rightarrow> (False, w')
      | (Inr u, w') \<Rightarrow> (True, w'))"

section \<open>The interceptors (api/server/middleware/queryCache.js)\<close>

text \<open>
  An interceptor returns how it ended, normally or with an exception, and the cycle it
  leaves behind. \<^verbatim>\<open>next()\<close> is counted; it returns normally or raises, as
  the runtime says for the cycle it is called in.
\<close>

definition call_next :: "runtime \<Rightarrow> cycle \<Rightarrow> (js_error + unit) \<times> cycle" where
  "call_next rt c =
     (let c' = c\<lparr>next_calls := next_calls c + 1\<rparr>
      in if next_raises rt c' then (Inl HandlerError, c') else (Inr (), c'))"

text \<open>
  \<^verbatim>\<open>
  res.json = function (body) {
    if (res.statusCode === 200 && body?.data) {
      setCachedQuery(req.userQuery, body.data, req.userId || '').then(...).catch(...);
    }
    return originalJson.call(this, body);
  };
  \<close>
  The write is not awaited; the model performs it before the body is sent. Express's
  own \<^verbatim>\<open>json\<close> sends the body or raises; the wrapper has no
  \<^verbatim>\<open>try\<close>, so an exception of the method it wraps passes through it.
\<close>

definition qualifies :: "response \<Rightarrow> jsval \<Rightarrow> bool" where
  "qualifies rs b = (res_statusCode rs = 200 \<and> truthy (get_prop b ''data''))"

fun call_json ::
  "runtime \<Rightarrow> json_method \<Rightarrow> request \<Rightarrow> response \<Rightarrow> jsval \<Rightarrow> world
     \<Rightarrow> (js_error + unit) \<times> response \<times> world" where
  "call_json rt OriginalJson rq rs b w =
     (if express_json_raises rt rs b then (Inl ExpressError, rs, w)
      else (Inr (), rs\<lparr>res_sent := res_sent rs @ [b]\<rparr>, w))"
| "call_json rt (CachingJson originalJson) rq rs b w =
     (let w' = (if qualifies rs b
                then snd (setCachedQuery rt (req_userQuery rq) (get_prop b ''data'')
                            (js_or (req_userId rq) (JStr '''')) None w)
                else w)
      in call_json rt originalJson rq rs b w')"

text \<open>\<^verbatim>\<open>res.json(body)\<close>, as a handler or an interceptor calls it.\<close>

definition send_json :: "runtime \<Rightarrow> jsval \<Rightarrow> cycle \<Rightarrow> (js_error + unit) \<times> cycle" where
  "send_json rt b c =
     (case call_json rt (res_json (res c)) (req c) (res c) b (wld c) of
        (r, rs', w') \<Rightarrow> (r, c\<lparr>res := rs', wld := w'\<rparr>))"

text \<open>\<^verbatim>\<open>res.status(code).json(body)\<close>: the status is set, then the body sent.\<close>

definition respond :: "runtime \<Rightarrow> nat \<Rightarrow> jsval \<Rightarrow> cycle \<Rightarrow> (js_error + unit) \<times> cycle" where
  "respond rt code b c = send_json rt b (c\<lparr>res := (res c)\<lparr>res_statusCode := code\<rparr>\<rparr>)"

text \<open>
  \<^verbatim>\<open>
  async function queryCacheMiddleware(req, res, next) {
    const userQuery = req.body?.message || req.body?.query || req.query?.q;
    const userId = req.user?.id || req.user?._id || '';
    if (!userQuery || typeof userQuery !== 'string') { return next(); }
    try {
      const cachedResult = await getCachedQuery(userQuery, userId);
      if (cachedResult) {
        return res.status(200).json({ success: true, data: cachedResult.result,
                                      cached: true, timestamp: cachedResult.timestamp });
      }
      req.userQuery = userQuery;
      req.userId = userId;
      next();
    } catch (error) {
      // Continue without caching on error
      next();
    }
  }
  \<close>
  \<open>queryCacheMiddleware_try\<close> is the body of the \<^verbatim>\<open>try\<close>. An exception
  of \<^verbatim>\<open>res.json\<close> or of \<^verbatim>\<open>next()\<close> inside it reaches the
  \<^verbatim>\<open>catch\<close>, which calls \<^verbatim>\<open>next()\<close> in the cycle as the exception
  left it; an exception of that call, and of the \<^verbatim>\<open>next()\<close> of the guard,
  leaves the interceptor.
\<close>

definition extract_userQuery :: "request \<Rightarrow> jsval" where
  "extract_userQuery rq =
     js_or (js_or (get_prop (req_body rq) ''message'') (get_prop (req_body rq) ''query''))
           (get_prop (req_query rq) ''q'')"

definition extract_userId :: "request \<Rightarrow> jsval" where
  "extract_userId rq =
     js_or (js_or (get_prop (req_user rq) ''id'') (get_prop (req_user rq) ''_id'')) (JStr '''')"

definition cached_response :: "jsval \<Rightarrow> jsval" where
  "cached_response cachedResult =
     JObj [(''success'', JBool True), (''data'', get_prop cachedResult ''result''),
           (''cached'', JBool True), (''timestamp'', get_prop cachedResult ''timestamp'')]"

definition queryCacheMiddleware_try ::
  "runtime \<Rightarrow> jsval \<Rightarrow> jsval \<Rightarrow> cycle \<Rightarrow> (js_error + unit) \<times> cycle" where
  "queryCacheMiddleware_try rt userQuery userId c =
     (case getCachedQuery rt userQuery userId (wld c) of
        (cachedResult, w') \<Rightarrow>
          if truthy cachedResult
          then respond rt 200 (cached_response cachedResult) (c\<lparr>wld := w'\<rparr>)
          else call_next rt
                 (c\<lparr>req := (req c)\<lparr>req_userQuery := userQuery, req_userId := userId\<rparr>,
                    wld := w'\<rparr>))"

definition queryCacheMiddleware :: "runtime \<Rightarrow> cycle \<Rightarrow> (js_error + unit) \<times> cycle" where
  "queryCacheMiddleware rt c =
     (let userQuery = extract_userQuery (req c);
          userId = extract_userId (req c)
      in if \<not> truthy userQuery \<or> \<not> is_string userQuery then call_next rt c
         else (case queryCacheMiddleware_try rt userQuery userId c of
                 (Inl e, c') \<Rightarrow> call_next rt c'
               | (Inr u, c') \<Rightarrow> (Inr u, c')))"

text \<open>
  \<^verbatim>\<open>
  async function cacheResponseMiddleware(req, res, next) {
    if (!req.userQuery) { return next(); }
    const originalJson = res.json;
    res.json = function (body) { ... };
    next();
  }
  \<close>
\<close>

definition cacheResponseMiddleware :: "runtime \<Rightarrow> cycle \<Rightarrow> (js_error + unit) \<times> cycle" where
  "cacheResponseMiddleware rt c =
     (if \<not> truthy (req_userQuery (req c)) then call_next rt c
      else call_next rt (c\<lparr>res := (res c)\<lparr>res_json := CachingJson (res_json (res c))\<rparr>\<rparr>))"

section \<open>A runtime and a world for closed examples\<close>

text \<open>
  The digest of the example runtime is the text itself, so that the key is the first
  32 characters of the text that would be hashed. Its \<open>trim\<close> strips the ASCII white
  space (tab, line feed, vertical tab, form feed, carriage return, space), which is what
  \<^verbatim>\<open>String.prototype.trim\<close> does on the ASCII strings of the examples. Express's
  \<^verbatim>\<open>json\<close> and \<^verbatim>\<open>next()\<close> do not raise in it; \<open>failing_send\<close> is
  the same runtime with an Express whose \<^verbatim>\<open>json\<close> raises.
\<close>

definition is_space :: "char \<Rightarrow> bool" where
  "is_space c = (c \<in> {CHR '' '', CHR 0x09, CHR 0x0A, CHR 0x0B, CHR 0x0C, CHR 0x0D})"

definition ascii_trim :: "string \<Rightarrow> string" where
  "ascii_trim s = rev (dropWhile is_space (rev (dropWhile is_space s)))"

definition toy_runtime :: runtime where
  "toy_runtime =
     \<lparr> sha256_hex = (\<lambda>s. s), ToString = (\<lambda>v. ''[object]''), toISOString = (\<lambda>t. ''T''),
       String_trim = ascii_trim, express_json_raises = (\<lambda>rs b. False),
       next_raises = (\<lambda>c. False) \<rparr>"

definition failing_send :: runtime where
  "failing_send = toy_runtime\<lparr>express_json_raises := (\<lambda>rs b. True)\<rparr>"

definition fresh_world :: world where
  "fresh_world = \<lparr> clock = 1000, store_up = True, contents = Map.empty, calls = [] \<rparr>"

definition fresh_cycle :: "jsval \<Rightarrow> jsval \<Rightarrow> jsval \<Rightarrow> world \<Rightarrow> cycle" where
  "fresh_cycle b q u w =
     \<lparr> req = \<lparr> req_body = b, req_query = q, req_user = u,
                req_userQuery = JUndefined, req_userId = JUndefined \<rparr>,
       res = \<lparr> res_statusCode = 200, res_json = OriginalJson, res_sent = [] \<rparr>,
       wld = w, next_calls = 0 \<rparr>"

text \<open>
  The cycle of a request with the body \<^verbatim>\<open>{message: "q"}\<close> after
  \<^verbatim>\<open>queryCacheMiddleware\<close> has missed on the empty store: the marker is attached.
\<close>

definition missed_cycle :: cycle where
  "missed_cycle =
     snd (queryCacheMiddleware toy_runtime
            (fresh_cycle (JObj [(''message'', JStr ''q'')]) JUndefined JUndefined fresh_world))"

text \<open>
  The world after \<^verbatim>\<open>setCachedQuery("q", 7)\<close> on the empty store, and the cycle
  of a request with the body \<^verbatim>\<open>{message: " q "}\<close> in it: a hit.
\<close>

definition cached_world :: world where
  "cached_world = snd (setCachedQuery toy_runtime (JStr ''q'') (JNum 7) (JStr '''') None fresh_world)"

definition hit_cycle :: cycle where
  "hit_cycle = fresh_cycle (JObj [(''message'', JStr '' q '')]) JUndefined JUndefined cached_world"

section \<open>Properties of the key deriver\<close>

lemma key_of_strings:
  "createQueryCacheKey rt (JStr T) (JStr S) = take 32 (sha256_hex rt (S @ '':'' @ T))"
  by (simp add: createQueryCacheKey_def default_param_def)

lemma takeWhile_upto_sep:
  "x \<notin> set s \<Longrightarrow> takeWhile (\<lambda>c. c \<noteq> x) (s @ x # q) = s"
  by (induction s) auto

lemma colon_split_unique:
  assumes "CHR '':'' \<notin> set s1" and "CHR '':'' \<notin> set s2"
    and "s1 @ '':'' @ q1 = s2 @ '':'' @ q2"
  shows "s1 = s2 \<and> q1 = q2"
proof -
  have "takeWhile (\<lambda>c. c \<noteq> CHR '':'') (s1 @ CHR '':'' # q1) = s1"
    using assms(1) by (rule takeWhile_upto_sep)
  moreover have "takeWhile (\<lambda>c. c \<noteq> CHR '':'') (s2 @ CHR '':'' # q2) = s2"
    using assms(2) by (rule takeWhile_upto_sep)
  ultimately have "s1 = s2" using assms(3) by simp
  with assms(3) show ?thesis by simp
qed

lemma key_default_idem:
  "createQueryCacheKey rt t (default_param u (JStr '''')) = createQueryCacheKey rt t u"
  by (simp add: createQueryCacheKey_def default_param_def)

lemma colon_ambiguity_any_digest:
  "createQueryCacheKey rt (JStr ''c'') (JStr ''a:b'') = createQueryCacheKey rt (JStr ''b:c'') (JStr ''a'')"
  by (simp add: key_of_strings)

text \<open>
  Claim C1, as stated: two (scope, trimmed query text) pairs that differ give different
  keys, and the colon makes the hashed text unambiguous, so that scope \<open>a:b\<close> with
  query \<open>c\<close> and scope \<open>a\<close> with query \<open>b:c\<close> give different keys. The code joins the
  two with a colon and escapes nothing: both pairs give the text \<open>a:b:c\<close>, and the same
  key whatever the digest is (\<open>colon_ambiguity_any_digest\<close>). The closed statement is
  for the digest that returns its text, where no two short texts collide: the keys are
  equal although the pairs differ and no collision is involved.
\<close>

theorem colon_ambiguity_counterexample:
  "(''a:b'', ''c'') \<noteq> (''a'', ''b:c'')
   \<and> \<not> hash_collision toy_runtime (''a:b'' @ '':'' @ ''c'') (''a'' @ '':'' @ ''b:c'')
   \<and> createQueryCacheKey toy_runtime (JStr ''c'') (JStr ''a:b'')
       = createQueryCacheKey toy_runtime (JStr ''b:c'') (JStr ''a'')"
  using colon_ambiguity_any_digest [of toy_runtime] by (simp add: hash_collision_def)

text \<open>
  Claim C1, amended: for two (scope, trimmed query text) pairs whose scopes hold no
  colon and that differ in the scope or in the query text, the hashed texts differ, and
  \<open>createQueryCacheKey\<close> gives different keys unless the two texts collide under the
  digest's first 32 characters.
\<close>

theorem createQueryCacheKey_distinct:
  assumes "CHR '':'' \<notin> set s1" and "CHR '':'' \<notin> set s2"
    and "s1 \<noteq> s2 \<or> q1 \<noteq> q2"
    and "\<not> hash_collision rt (s1 @ '':'' @ q1) (s2 @ '':'' @ q2)"
  shows "createQueryCacheKey rt (JStr q1) (JStr s1) \<noteq> createQueryCacheKey rt (JStr q2) (JStr s2)"
proof
  assume eq: "createQueryCacheKey rt (JStr q1) (JStr s1) = createQueryCacheKey rt (JStr q2) (JStr s2)"
  then have "take 32 (sha256_hex rt (s1 @ '':'' @ q1)) = take 32 (sha256_hex rt (s2 @ '':'' @ q2))"
    by (simp only: key_of_strings)
  with assms(4) have "s1 @ '':'' @ q1 = s2 @ '':'' @ q2"
    by (auto simp: hash_collision_def)
  with assms(1,2) have "s1 = s2 \<and> q1 = q2" by (rule colon_split_unique)
  with assms(3) show False by simp
qed

theorem createQueryCacheKey_distinct_witness:
  "CHR '':'' \<notin> set ''userA'' \<and> CHR '':'' \<notin> set ''userB''
   \<and> \<not> hash_collision toy_runtime (''userA'' @ '':'' @ ''q'') (''userB'' @ '':'' @ ''q'')
   \<and> createQueryCacheKey toy_runtime (JStr ''q'') (JStr ''userA'')
       \<noteq> createQueryCacheKey toy_runtime (JStr ''q'') (JStr ''userB'')"
proof -
  have a: "CHR '':'' \<notin> set ''userA''" by simp
  have b: "CHR '':'' \<notin> set ''userB''" by simp
  have d: "''userA'' \<noteq> ''userB'' \<or> ''q'' \<noteq> ''q''" by simp
  have n: "\<not> hash_collision toy_runtime (''userA'' @ '':'' @ ''q'') (''userB'' @ '':'' @ ''q'')"
    by (simp add: hash_collision_def toy_runtime_def)
  from createQueryCacheKey_distinct [OF a b d n] a b n show ?thesis by blast
qed

section \<open>Properties of the accessor\<close>

lemma store_raises_iff:
  "(\<exists>e. fst (store_get k w) = Inl e) = (\<not> store_up w)"
  "(\<exists>e. fst (store_set k v t w) = Inl e) = (\<not> store_up w)"
  "(\<exists>e. fst (store_clear w) = Inl e) = (\<not> store_up w)"
  by (auto simp: store_get_def store_set_def store_clear_def Let_def split: option.splits)

lemma store_get_live:
  assumes "store_up w" and "contents w k = Some (v, expires)" and "clock w \<le> expires"
  shows "fst (store_get k w) = Inr v"
  using assms by (simp add: store_get_def Let_def)

lemma store_get_missing:
  assumes "store_up w" and "contents w k = None"
  shows "fst (store_get k w) = Inr JUndefined"
  using assms by (simp add: store_get_def Let_def)

lemma store_get_calls: "calls (snd (store_get k w)) = calls w @ [StoreGet k]"
  by (simp add: store_get_def Let_def split: option.splits prod.splits)

lemma getCachedQuery_string:
  assumes "q \<noteq> []"
  shows "fst (getCachedQuery rt (JStr q) u w) =
           (case fst (store_get (createQueryCacheKey rt (JStr (String_trim rt q)) u) w) of
              Inl e \<Rightarrow> JNull
            | Inr v \<Rightarrow> if truthy v then v else JNull)"
  using assms
  by (simp add: getCachedQuery_def getCachedQuery_try_def Let_def key_default_idem
           split: prod.splits sum.splits)

lemma getCachedQuery_calls:
  assumes "q \<noteq> []"
  shows "calls (snd (getCachedQuery rt (JStr q) u w)) =
           calls w @ [StoreGet (createQueryCacheKey rt (JStr (String_trim rt q)) u)]"
proof -
  let ?k = "createQueryCacheKey rt (JStr (String_trim rt q)) u"
  have "snd (getCachedQuery rt (JStr q) u w) = snd (store_get ?k w)"
    using assms
    by (simp add: getCachedQuery_def getCachedQuery_try_def Let_def key_default_idem
             split: prod.splits sum.splits)
  then show ?thesis by (simp add: store_get_calls)
qed

lemma setCachedQuery_True:
  assumes "setCachedQuery rt queryText r u ttl0 w = (True, w1)"
  shows "\<exists>q. queryText = JStr q \<and> q \<noteq> [] \<and> r \<noteq> JUndefined \<and> store_up w
           \<and> contents w1 = (contents w)(createQueryCacheKey rt (JStr (String_trim rt q)) u \<mapsto>
                 (make_entry rt r (JStr q) (default_param u (JStr '''')) w,
                  clock w + (case ttl0 of None \<Rightarrow> TEN_MINUTES | Some t \<Rightarrow> t)))"
proof (cases queryText)
  case (JStr q)
  with assms show ?thesis
    by (auto simp: setCachedQuery_def setCachedQuery_try_def store_set_def Let_def key_default_idem
             split: if_splits prod.splits sum.splits)
qed (use assms in \<open>simp_all add: setCachedQuery_def\<close>)

lemma setCachedQuery_clock: "clock (snd (setCachedQuery rt qt r u ttl w)) = clock w"
  by (cases qt)
     (simp_all add: setCachedQuery_def setCachedQuery_try_def store_set_def Let_def)

lemma setCachedQuery_store_up: "store_up (snd (setCachedQuery rt qt r u ttl w)) = store_up w"
  by (cases qt)
     (simp_all add: setCachedQuery_def setCachedQuery_try_def store_set_def Let_def)

lemma setCachedQuery_calls:
  assumes "q \<noteq> []" and "r \<noteq> JUndefined"
  shows "calls (snd (setCachedQuery rt (JStr q) r u ttl w)) =
           calls w @ [StoreSet (createQueryCacheKey rt (JStr (String_trim rt q)) u)
                        (make_entry rt r (JStr q) (default_param u (JStr '''')) w)
                        (case ttl of None \<Rightarrow> TEN_MINUTES | Some t \<Rightarrow> t)]"
  using assms
  by (simp add: setCachedQuery_def setCachedQuery_try_def store_set_def Let_def key_default_idem)

lemma setCachedQuery_calls_extend:
  "\<exists>rest. calls (snd (setCachedQuery rt qt r u ttl w)) = calls w @ rest"
  by (cases qt)
     (simp_all add: setCachedQuery_def setCachedQuery_try_def store_set_def Let_def)

lemma set_in_fresh_world:
  assumes "q \<noteq> []" and "r \<noteq> JUndefined"
  shows "fst (setCachedQuery rt (JStr q) r u ttl fresh_world) = True"
  using assms
  by (simp add: setCachedQuery_def setCachedQuery_try_def store_set_def fresh_world_def Let_def)

lemma entry_truthy: "truthy (make_entry rt r qt u w)"
  by (simp add: make_entry_def)

lemma entry_fields:
  "get_prop (make_entry rt r qt u w) ''result'' = r"
  "get_prop (make_entry rt r qt u w) ''query'' = qt"
  "get_prop (make_entry rt r qt u w) ''timestamp'' = JStr (toISOString rt (clock w))"
  by (simp_all add: make_entry_def)

lemma trim_examples:
  "ascii_trim '' '' = []" "ascii_trim [] = []" "ascii_trim ''  q1 '' = ''q1''"
  "ascii_trim ''q1'' = ''q1''" "ascii_trim ''q'' = ''q''" "ascii_trim '' q '' = ''q''"
  "ascii_trim ''x'' = ''x''"
  by (simp_all add: ascii_trim_def is_space_def)

lemma toy_runtime_fields:
  "sha256_hex toy_runtime = (\<lambda>s. s)" "String_trim toy_runtime = ascii_trim"
  "toISOString toy_runtime = (\<lambda>t. ''T'')"
  "express_json_raises toy_runtime = (\<lambda>rs b. False)" "next_raises toy_runtime = (\<lambda>c. False)"
  "sha256_hex failing_send = (\<lambda>s. s)" "String_trim failing_send = ascii_trim"
  "toISOString failing_send = (\<lambda>t. ''T'')"
  "express_json_raises failing_send = (\<lambda>rs b. True)" "next_raises failing_send = (\<lambda>c. False)"
  by (simp_all add: toy_runtime_def failing_send_def)

lemma get_after_set:
  assumes set_ok: "setCachedQuery rt (JStr q) r s ttl w = (True, w1)"
    and "q' \<noteq> []" and "String_trim rt q' = String_trim rt q"
    and "store_up w2" and "contents w2 = contents w1"
    and "clock w2 \<le> clock w + (case ttl of None \<Rightarrow> TEN_MINUTES | Some t \<Rightarrow> t)"
  shows "fst (getCachedQuery rt (JStr q') s w2) = make_entry rt r (JStr q) (default_param s (JStr '''')) w"
proof -
  let ?k = "createQueryCacheKey rt (JStr (String_trim rt q)) s"
  let ?e = "make_entry rt r (JStr q) (default_param s (JStr '''')) w"
  from setCachedQuery_True [OF set_ok]
  have "contents w1 ?k = Some (?e, clock w + (case ttl of None \<Rightarrow> TEN_MINUTES | Some t \<Rightarrow> t))"
    by simp
  with assms(5) have "contents w2 ?k = Some (?e, clock w + (case ttl of None \<Rightarrow> TEN_MINUTES | Some t \<Rightarrow> t))"
    by simp
  then have "fst (store_get ?k w2) = Inr ?e"
    using assms(4,6) by (simp add: store_get_live)
  with assms(2,3) show ?thesis
    by (simp add: getCachedQuery_string entry_truthy)
qed



text \<open>
  Claim C7. For every \<open>queryText\<close> that is empty, absent or not a string,
  \<open>getCachedQuery\<close> returns \<open>null\<close> and \<open>setCachedQuery\<close> returns \<open>false\<close>; and
  \<open>setCachedQuery\<close> returns \<open>false\<close> for every query text when the result is
  \<open>undefined\<close>. In each case the world is returned as it was: the log of store
  operations has no new entry, so the store was not touched. The functions return a
  value on these inputs; nothing is raised.
\<close>

theorem invalid_input_no_store_access:
  assumes "\<not> is_string queryText \<or> queryText = JStr []"
  shows "getCachedQuery rt queryText userId w = (JNull, w)
       \<and> setCachedQuery rt queryText result userId ttl w = (False, w)
       \<and> setCachedQuery rt anyText JUndefined userId ttl w = (False, w)"
proof -
  from assms have g: "\<not> truthy queryText \<or> \<not> is_string queryText" by auto
  then show ?thesis by (auto simp: getCachedQuery_def setCachedQuery_def Let_def)
qed

theorem invalid_input_no_store_access_witness:
  "\<not> is_string (JNum 5)
   \<and> getCachedQuery toy_runtime (JNum 5) (JStr ''u'') fresh_world = (JNull, fresh_world)
   \<and> setCachedQuery toy_runtime (JNum 5) (JNum 1) (JStr ''u'') None fresh_world = (False, fresh_world)
   \<and> setCachedQuery toy_runtime (JStr ''q'') JUndefined (JStr ''u'') None fresh_world = (False, fresh_world)"
proof -
  have h: "\<not> is_string (JNum 5) \<or> JNum 5 = JStr []" by simp
  have n: "\<not> is_string (JNum 5)" by simp
  from invalid_input_no_store_access [OF h, of toy_runtime "JStr ''u''" fresh_world "JNum 1" None "JStr ''q''"] n
  show ?thesis by simp
qed

text \<open>
  Claim C3. For every input, if the underlying store operation raises,
  \<open>getCachedQuery\<close> returns \<open>null\<close>, \<open>setCachedQuery\<close> returns \<open>false\<close> and
  \<open>clearQueryCache\<close> returns \<open>false\<close>. A store operation raises exactly when the store
  is not available (\<open>store_raises_iff\<close>). The three accessors return a value in every
  world: the exception of the \<^verbatim>\<open>try\<close> body is consumed by the
  \<^verbatim>\<open>catch\<close> and their result type has no place for one.
\<close>

theorem store_failure_contained:
  assumes "\<not> store_up w"
  shows "fst (getCachedQuery rt queryText userId w) = JNull
       \<and> fst (setCachedQuery rt queryText result userId ttl w) = False
       \<and> fst (clearQueryCache w) = False"
proof (intro conjI)
  show "fst (getCachedQuery rt queryText userId w) = JNull"
    using assms
    by (cases queryText)
       (simp_all add: getCachedQuery_def getCachedQuery_try_def store_get_def Let_def)
  show "fst (setCachedQuery rt queryText result userId ttl w) = False"
    using assms
    by (cases queryText)
       (simp_all add: setCachedQuery_def setCachedQuery_try_def store_set_def Let_def)
  show "fst (clearQueryCache w) = False"
    using assms by (simp add: clearQueryCache_def store_clear_def Let_def)
qed

theorem store_failure_contained_witness:
  "\<not> store_up (fresh_world\<lparr>store_up := False\<rparr>)
   \<and> fst (getCachedQuery toy_runtime (JStr ''q'') (JStr ''u'') (fresh_world\<lparr>store_up := False\<rparr>)) = JNull
   \<and> fst (setCachedQuery toy_runtime (JStr ''q'') (JNum 1) (JStr ''u'') None (fresh_world\<lparr>store_up := False\<rparr>)) = False
   \<and> fst (clearQueryCache (fresh_world\<lparr>store_up := False\<rparr>)) = False"
proof -
  have h: "\<not> store_up (fresh_world\<lparr>store_up := False\<rparr>)" by simp
  from store_failure_contained [OF h, of toy_runtime "JStr ''q''" "JStr ''u''" "JNum 1" None] h
  show ?thesis by simp
qed

text \<open>
  Claim C2, as stated: after \<open>setCachedQuery(q, r, s)\<close> has succeeded for a non-empty
  string \<open>q\<close>, \<open>getCachedQuery\<close> on any string that trims to the same text returns the
  entry. The guard of both accessors tests the text before it is trimmed. A query of one
  space is not empty, so it is written, under the key of the empty text; the empty
  string trims to the same text and is turned away by the guard of \<open>getCachedQuery\<close>.
\<close>

theorem trim_equivalence_counterexample:
  "fst (setCachedQuery toy_runtime (JStr '' '') (JNum 1) (JStr '''') None fresh_world) = True
   \<and> String_trim toy_runtime '''' = String_trim toy_runtime '' ''
   \<and> fst (getCachedQuery toy_runtime (JStr '''') (JStr '''')
            (snd (setCachedQuery toy_runtime (JStr '' '') (JNum 1) (JStr '''') None fresh_world))) = JNull"
  by (simp add: setCachedQuery_def setCachedQuery_try_def getCachedQuery_def store_set_def
        fresh_world_def Let_def toy_runtime_fields trim_examples)

text \<open>
  Claim C2, amended: for every query \<open>q\<close>, result \<open>r\<close> and scope \<open>s\<close>, after
  \<open>setCachedQuery(q, r, s)\<close> has succeeded, \<open>getCachedQuery\<close> applied to any
  \<^emph>\<open>non-empty\<close> string that trims to the same text as \<open>q\<close>, with the same scope,
  returns an entry whose \<open>result\<close> is \<open>r\<close> and whose \<open>query\<close> is the untrimmed \<open>q\<close>.
  Trimming is the runtime's \<^verbatim>\<open>String.prototype.trim\<close>, whatever white space it
  strips. The read happens in a world \<open>w2\<close> in which the store is available, holds
  what the write left and whose clock has not passed the entry's time-to-live.
\<close>

theorem set_then_get_roundtrip:
  assumes "setCachedQuery rt (JStr q) r s ttl w = (True, w1)"
    and "q' \<noteq> []" and "String_trim rt q' = String_trim rt q"
    and "store_up w2" and "contents w2 = contents w1"
    and "clock w2 \<le> clock w + (case ttl of None \<Rightarrow> TEN_MINUTES | Some t \<Rightarrow> t)"
  shows "get_prop (fst (getCachedQuery rt (JStr q') s w2)) ''result'' = r
       \<and> get_prop (fst (getCachedQuery rt (JStr q') s w2)) ''query'' = JStr q"
  using get_after_set [OF assms] by (simp add: entry_fields)

theorem set_then_get_roundtrip_witness:
  "fst (setCachedQuery toy_runtime (JStr ''  q1 '') (JObj [(''rows'', JArr [JNum 1, JNum 2, JNum 3])])
          (JStr '''') None fresh_world) = True
   \<and> String_trim toy_runtime ''q1'' = String_trim toy_runtime ''  q1 ''
   \<and> get_prop (fst (getCachedQuery toy_runtime (JStr ''q1'') (JStr '''')
        ((snd (setCachedQuery toy_runtime (JStr ''  q1 '') (JObj [(''rows'', JArr [JNum 1, JNum 2, JNum 3])])
                 (JStr '''') None fresh_world))\<lparr>clock := 2000\<rparr>))) ''result''
       = JObj [(''rows'', JArr [JNum 1, JNum 2, JNum 3])]
   \<and> get_prop (fst (getCachedQuery toy_runtime (JStr ''q1'') (JStr '''')
        ((snd (setCachedQuery toy_runtime (JStr ''  q1 '') (JObj [(''rows'', JArr [JNum 1, JNum 2, JNum 3])])
                 (JStr '''') None fresh_world))\<lparr>clock := 2000\<rparr>))) ''query''
       = JStr ''  q1 ''"
proof -
  let ?r = "JObj [(''rows'', JArr [JNum 1, JNum 2, JNum 3])]"
  let ?set = "setCachedQuery toy_runtime (JStr ''  q1 '') ?r (JStr '''') None fresh_world"
  have ok: "fst ?set = True" by (simp add: set_in_fresh_world)
  then have h1: "?set = (True, snd ?set)" by (simp add: prod_eq_iff)
  have h2: "''q1'' \<noteq> []" by simp
  have h3: "String_trim toy_runtime ''q1'' = String_trim toy_runtime ''  q1 ''"
    by (simp add: toy_runtime_fields trim_examples)
  have h4: "store_up ((snd ?set)\<lparr>clock := 2000\<rparr>)"
    by (simp add: setCachedQuery_store_up fresh_world_def)
  have h5: "contents ((snd ?set)\<lparr>clock := 2000\<rparr>) = contents (snd ?set)" by simp
  have h6: "clock ((snd ?set)\<lparr>clock := 2000\<rparr>)
              \<le> clock fresh_world + (case None of None \<Rightarrow> TEN_MINUTES | Some t \<Rightarrow> t)"
    by (simp add: fresh_world_def TEN_MINUTES_def)
  from set_then_get_roundtrip [OF h1 h2 h3 h4 h5 h6] ok h3 show ?thesis by simp
qed

text \<open>
  Claim C9. For every query text \<open>q\<close>, result \<open>r1\<close> and two distinct scopes (the claim
  names them \<open>userA\<close> and \<open>userB\<close>; the theorem takes any two distinct strings \<open>a\<close>
  and \<open>b\<close>), after \<open>setCachedQuery(q, r1, a)\<close> has succeeded, \<open>getCachedQuery(q, b)\<close>
  returns \<open>null\<close> and \<open>getCachedQuery(q, a)\<close> returns an entry whose result is \<open>r1\<close>.
  Nothing was stored for \<open>b\<close> before the write, the two hashed texts do not collide,
  and the reads happen while the store is available, holds what the write left and the
  entry has not expired.
\<close>

theorem scope_isolation:
  assumes "a \<noteq> b"
    and set_ok: "setCachedQuery rt (JStr q) r1 (JStr a) ttl w = (True, w1)"
    and before: "contents w (createQueryCacheKey rt (JStr (String_trim rt q)) (JStr b)) = None"
    and nocoll: "\<not> hash_collision rt (a @ '':'' @ String_trim rt q) (b @ '':'' @ String_trim rt q)"
    and "store_up w2" and "contents w2 = contents w1"
    and "clock w2 \<le> clock w + (case ttl of None \<Rightarrow> TEN_MINUTES | Some t \<Rightarrow> t)"
  shows "fst (getCachedQuery rt (JStr q) (JStr b) w2) = JNull
       \<and> get_prop (fst (getCachedQuery rt (JStr q) (JStr a) w2)) ''result'' = r1"
proof
  from setCachedQuery_True [OF set_ok] have q: "q \<noteq> []"
    and c1: "contents w1 = (contents w)(createQueryCacheKey rt (JStr (String_trim rt q)) (JStr a) \<mapsto>
                 (make_entry rt r1 (JStr q) (default_param (JStr a) (JStr '''')) w,
                  clock w + (case ttl of None \<Rightarrow> TEN_MINUTES | Some t \<Rightarrow> t)))"
    by auto
  from \<open>a \<noteq> b\<close> nocoll
  have "createQueryCacheKey rt (JStr (String_trim rt q)) (JStr b)
          \<noteq> createQueryCacheKey rt (JStr (String_trim rt q)) (JStr a)"
    by (auto simp: key_of_strings hash_collision_def)
  with c1 before assms(6)
  have "contents w2 (createQueryCacheKey rt (JStr (String_trim rt q)) (JStr b)) = None"
    by simp
  with \<open>store_up w2\<close>
  have "fst (store_get (createQueryCacheKey rt (JStr (String_trim rt q)) (JStr b)) w2) = Inr JUndefined"
    by (rule store_get_missing)
  with q show "fst (getCachedQuery rt (JStr q) (JStr b) w2) = JNull"
    by (simp add: getCachedQuery_string)
  from q get_after_set [OF set_ok q refl assms(5,6,7)]
  show "get_prop (fst (getCachedQuery rt (JStr q) (JStr a) w2)) ''result'' = r1"
    by (simp add: entry_fields)
qed

theorem scope_isolation_witness:
  "fst (setCachedQuery toy_runtime (JStr ''q'') (JNum 7) (JStr ''userA'') None fresh_world) = True
   \<and> \<not> hash_collision toy_runtime (''userA'' @ '':'' @ String_trim toy_runtime ''q'')
                                   (''userB'' @ '':'' @ String_trim toy_runtime ''q'')
   \<and> fst (getCachedQuery toy_runtime (JStr ''q'') (JStr ''userB'')
        ((snd (setCachedQuery toy_runtime (JStr ''q'') (JNum 7) (JStr ''userA'') None fresh_world))
           \<lparr>clock := 2000\<rparr>)) = JNull
   \<and> get_prop (fst (getCachedQuery toy_runtime (JStr ''q'') (JStr ''userA'')
        ((snd (setCachedQuery toy_runtime (JStr ''q'') (JNum 7) (JStr ''userA'') None fresh_world))
           \<lparr>clock := 2000\<rparr>))) ''result'' = JNum 7"
proof -
  let ?set = "setCachedQuery toy_runtime (JStr ''q'') (JNum 7) (JStr ''userA'') None fresh_world"
  have ok: "fst ?set = True" by (simp add: set_in_fresh_world)
  then have h1: "?set = (True, snd ?set)" by (simp add: prod_eq_iff)
  have h0: "''userA'' \<noteq> ''userB''" by simp
  have h2: "contents fresh_world
              (createQueryCacheKey toy_runtime (JStr (String_trim toy_runtime ''q'')) (JStr ''userB'')) = None"
    by (simp add: fresh_world_def)
  have h3: "\<not> hash_collision toy_runtime (''userA'' @ '':'' @ String_trim toy_runtime ''q'')
                                        (''userB'' @ '':'' @ String_trim toy_runtime ''q'')"
    by (simp add: hash_collision_def toy_runtime_fields)
  have h4: "store_up ((snd ?set)\<lparr>clock := 2000\<rparr>)"
    by (simp add: setCachedQuery_store_up fresh_world_def)
  have h5: "contents ((snd ?set)\<lparr>clock := 2000\<rparr>) = contents (snd ?set)" by simp
  have h6: "clock ((snd ?set)\<lparr>clock := 2000\<rparr>)
              \<le> clock fresh_world + (case None of None \<Rightarrow> TEN_MINUTES | Some t \<Rightarrow> t)"
    by (simp add: fresh_world_def TEN_MINUTES_def)
  from scope_isolation [OF h0 h1 h2 h3 h4 h5 h6] ok h3 show ?thesis by simp
qed

section \<open>Properties of the interceptors\<close>

lemma call_next_fields:
  "req (snd (call_next rt c)) = req c" "res (snd (call_next rt c)) = res c"
  "wld (snd (call_next rt c)) = wld c" "next_calls (snd (call_next rt c)) = next_calls c + 1"
  by (simp_all add: call_next_def Let_def)

lemma call_json_outcome:
  "fst (call_json rt m rq rs b w) = (if express_json_raises rt rs b then Inl ExpressError else Inr ())"
  by (induction m arbitrary: w) (simp_all add: Let_def)

lemma call_json_response:
  "fst (snd (call_json rt m rq rs b w)) =
     (if express_json_raises rt rs b then rs else rs\<lparr>res_sent := res_sent rs @ [b]\<rparr>)"
  by (induction m arbitrary: w) (simp_all add: Let_def)

lemma call_json_not_qualifying:
  "\<not> qualifies rs b \<Longrightarrow> snd (snd (call_json rt m rq rs b w)) = w"
  by (induction m arbitrary: w) simp_all

lemma call_json_calls_extend:
  "\<exists>rest. calls (snd (snd (call_json rt m rq rs b w))) = calls w @ rest"
proof (induction m arbitrary: w)
  case OriginalJson
  show ?case by simp
next
  case (CachingJson m)
  show ?case
  proof (cases "qualifies rs b")
    case False
    with CachingJson [of w] show ?thesis by simp
  next
    case True
    let ?w' = "snd (setCachedQuery rt (req_userQuery rq) (get_prop b ''data'')
                      (js_or (req_userId rq) (JStr '''')) None w)"
    obtain r1 where r1: "calls ?w' = calls w @ r1"
      using setCachedQuery_calls_extend by blast
    obtain r2 where r2: "calls (snd (snd (call_json rt m rq rs b ?w'))) = calls ?w' @ r2"
      using CachingJson [of ?w'] by blast
    from True r1 r2 show ?thesis by simp
  qed
qed

lemma send_json_eq:
  "send_json rt b c =
     (if express_json_raises rt (res c) b then Inl ExpressError else Inr (),
      c\<lparr>res := (if express_json_raises rt (res c) b then res c
                 else (res c)\<lparr>res_sent := res_sent (res c) @ [b]\<rparr>),
        wld := snd (snd (call_json rt (res_json (res c)) (req c) (res c) b (wld c)))\<rparr>)"
proof -
  obtain r rs' w' where cj: "call_json rt (res_json (res c)) (req c) (res c) b (wld c) = (r, rs', w')"
    by (cases "call_json rt (res_json (res c)) (req c) (res c) b (wld c)") auto
  from call_json_outcome [of rt "res_json (res c)" "req c" "res c" b "wld c"]
       call_json_response [of rt "res_json (res c)" "req c" "res c" b "wld c"] cj
  show ?thesis by (simp add: send_json_def)
qed

lemma truthy_not_undefined: "truthy v \<Longrightarrow> v \<noteq> JUndefined"
  by auto

lemma usable_string:
  "(truthy v \<and> is_string v) = (\<exists>q. v = JStr q \<and> q \<noteq> [])"
  by (cases v) auto

text \<open>
  Claim C6, as stated: the query text is the first non-empty value among the body's
  \<open>message\<close>, the body's \<open>query\<close> and the query string's \<open>q\<close>, and where
  none of them yields a usable string the request passes through. The code takes the first
  \<^emph>\<open>truthy\<close> value (\<^verbatim>\<open>||\<close>) and asks for a string afterwards. For the body
  \<^verbatim>\<open>{message: [], query: "x"}\<close> the first non-empty value is the usable string
  \<open>x\<close>; the empty array is truthy, so the code extracts it and the request passes
  through with no cache read and no marker.
\<close>

theorem empty_array_shadows_query_counterexample:
  "get_prop (JObj [(''message'', JArr []), (''query'', JStr ''x'')]) ''message'' = JArr []
   \<and> get_prop (JObj [(''message'', JArr []), (''query'', JStr ''x'')]) ''query'' = JStr ''x''
   \<and> extract_userQuery
        (req (fresh_cycle (JObj [(''message'', JArr []), (''query'', JStr ''x'')])
                JUndefined JUndefined fresh_world)) = JArr []
   \<and> queryCacheMiddleware toy_runtime
        (fresh_cycle (JObj [(''message'', JArr []), (''query'', JStr ''x'')])
           JUndefined JUndefined fresh_world)
       = (Inr (), (fresh_cycle (JObj [(''message'', JArr []), (''query'', JStr ''x'')])
                     JUndefined JUndefined fresh_world)\<lparr>next_calls := 1\<rparr>)"
  by (simp add: queryCacheMiddleware_def extract_userQuery_def js_or_def fresh_cycle_def
        call_next_def Let_def toy_runtime_fields)

text \<open>
  Claim C6, amended: the query text \<open>v\<close> of a request is the first truthy value among
  the body's \<open>message\<close>, the body's \<open>query\<close> and the query string's \<open>q\<close>, in this
  order (the last one where none is truthy). Where \<open>v\<close> is no non-empty string, also
  when a later location holds one, the interceptor does nothing but call \<open>next\<close>: the
  request, the response and the world are what they were, so there was no cache read
  and no marker is attached. Where \<open>v\<close> is a non-empty string \<open>q\<close>, the first thing the
  interceptor does to the store is the read under the key of the trimmed \<open>q\<close> and the
  requester's id, and on a miss the marker it attaches carries \<open>q\<close> and that id and
  \<open>next\<close> is called.
\<close>

theorem extraction_priority_and_participation:
  assumes "m = get_prop (req_body (req c)) ''message''"
    and "qy = get_prop (req_body (req c)) ''query''"
    and "qs = get_prop (req_query (req c)) ''q''"
    and "v = (if truthy m then m else if truthy qy then qy else qs)"
    and "uid = (if truthy (get_prop (req_user (req c)) ''id'') then get_prop (req_user (req c)) ''id''
                else if truthy (get_prop (req_user (req c)) ''_id'') then get_prop (req_user (req c)) ''_id''
                else JStr '''')"
  shows "((\<forall>q. v = JStr q \<longrightarrow> q = []) \<longrightarrow>
            queryCacheMiddleware rt c = call_next rt c
          \<and> snd (queryCacheMiddleware rt c) = c\<lparr>next_calls := next_calls c + 1\<rparr>)
       \<and> (\<forall>q. v = JStr q \<and> q \<noteq> [] \<longrightarrow>
            (\<exists>rest. calls (wld (snd (queryCacheMiddleware rt c)))
                      = calls (wld c) @ StoreGet (createQueryCacheKey rt (JStr (String_trim rt q)) uid) # rest)
            \<and> (\<not> truthy (fst (getCachedQuery rt (JStr q) uid (wld c))) \<longrightarrow>
                 req (snd (queryCacheMiddleware rt c))
                   = (req c)\<lparr>req_userQuery := JStr q, req_userId := uid\<rparr>
                 \<and> next_calls c < next_calls (snd (queryCacheMiddleware rt c))))"
proof -
  have ev: "extract_userQuery (req c) = v"
    using assms(1-4) by (simp add: extract_userQuery_def js_or_def)
  have eu: "extract_userId (req c) = uid"
    using assms(5) by (simp add: extract_userId_def js_or_def)
  have bypass: "queryCacheMiddleware rt c = call_next rt c
                \<and> snd (queryCacheMiddleware rt c) = c\<lparr>next_calls := next_calls c + 1\<rparr>"
    if "\<forall>q. v = JStr q \<longrightarrow> q = []"
  proof -
    from that have "\<not> (truthy v \<and> is_string v)" by (auto simp: usable_string)
    then have "queryCacheMiddleware rt c = call_next rt c"
      by (auto simp: queryCacheMiddleware_def Let_def ev)
    then show ?thesis by (simp add: call_next_def Let_def)
  qed
  have part: "(\<exists>rest. calls (wld (snd (queryCacheMiddleware rt c)))
                      = calls (wld c) @ StoreGet (createQueryCacheKey rt (JStr (String_trim rt q)) uid) # rest)
            \<and> (\<not> truthy (fst (getCachedQuery rt (JStr q) uid (wld c))) \<longrightarrow>
                 req (snd (queryCacheMiddleware rt c))
                   = (req c)\<lparr>req_userQuery := JStr q, req_userId := uid\<rparr>
                 \<and> next_calls c < next_calls (snd (queryCacheMiddleware rt c)))"
    if vq: "v = JStr q \<and> q \<noteq> []" for q
  proof -
    let ?k = "createQueryCacheKey rt (JStr (String_trim rt q)) uid"
    obtain e w' where g: "getCachedQuery rt (JStr q) uid (wld c) = (e, w')"
      by (cases "getCachedQuery rt (JStr q) uid (wld c)")
    from vq getCachedQuery_calls [of q rt uid "wld c"] g
    have cw: "calls w' = calls (wld c) @ [StoreGet ?k]" by simp
    have mw: "queryCacheMiddleware rt c =
                (case queryCacheMiddleware_try rt (JStr q) uid c of
                   (Inl x, c') \<Rightarrow> call_next rt c' | (Inr u, c') \<Rightarrow> (Inr u, c'))"
      using vq by (simp add: queryCacheMiddleware_def Let_def ev eu)
    show ?thesis
    proof (cases "truthy e")
      case True
      let ?c1 = "c\<lparr>wld := w', res := (res c)\<lparr>res_statusCode := 200\<rparr>\<rparr>"
      obtain rest where r: "calls (snd (snd (call_json rt (res_json (res ?c1)) (req ?c1) (res ?c1)
                                    (cached_response e) (wld ?c1)))) = calls w' @ rest"
        using call_json_calls_extend [of rt "res_json (res ?c1)" "req ?c1" "res ?c1" "cached_response e" "wld ?c1"]
        by auto
      have "calls (wld (snd (queryCacheMiddleware rt c))) = calls w' @ rest"
        using True g r
        by (simp add: mw queryCacheMiddleware_try_def respond_def send_json_eq call_next_fields
                 split: sum.splits)
      with cw True g show ?thesis by simp
    next
      case False
      let ?c1 = "c\<lparr>req := (req c)\<lparr>req_userQuery := JStr q, req_userId := uid\<rparr>, wld := w'\<rparr>"
      have t: "queryCacheMiddleware_try rt (JStr q) uid c = call_next rt ?c1"
        using False g by (simp add: queryCacheMiddleware_try_def)
      have "wld (snd (queryCacheMiddleware rt c)) = w'
              \<and> req (snd (queryCacheMiddleware rt c)) = req ?c1
              \<and> next_calls c < next_calls (snd (queryCacheMiddleware rt c))"
        by (simp add: mw t call_next_def Let_def split: sum.splits)
      with cw g show ?thesis by simp
    qed
  qed
  from bypass part show ?thesis by blast
qed

theorem extraction_priority_and_participation_witness:
  "queryCacheMiddleware toy_runtime
     (fresh_cycle (JObj [(''message'', JNum 0), (''query'', JStr '''')]) (JObj [(''q'', JBool True)])
        JUndefined fresh_world)
     = call_next toy_runtime
         (fresh_cycle (JObj [(''message'', JNum 0), (''query'', JStr '''')]) (JObj [(''q'', JBool True)])
            JUndefined fresh_world)
   \<and> (\<exists>rest. calls (wld (snd (queryCacheMiddleware toy_runtime
                 (fresh_cycle (JObj [(''message'', JStr ''''), (''query'', JStr ''x'')])
                    (JObj [(''q'', JStr ''y'')]) (JObj [(''_id'', JStr ''u1'')]) fresh_world))))
               = StoreGet ''u1:x'' # rest)
   \<and> req_userQuery (req (snd (queryCacheMiddleware toy_runtime
        (fresh_cycle (JObj [(''message'', JStr ''''), (''query'', JStr ''x'')])
           (JObj [(''q'', JStr ''y'')]) (JObj [(''_id'', JStr ''u1'')]) fresh_world)))) = JStr ''x''
   \<and> req_userId (req (snd (queryCacheMiddleware toy_runtime
        (fresh_cycle (JObj [(''message'', JStr ''''), (''query'', JStr ''x'')])
           (JObj [(''q'', JStr ''y'')]) (JObj [(''_id'', JStr ''u1'')]) fresh_world)))) = JStr ''u1''"
proof -
  let ?c0 = "fresh_cycle (JObj [(''message'', JNum 0), (''query'', JStr '''')]) (JObj [(''q'', JBool True)])
               JUndefined fresh_world"
  let ?c1 = "fresh_cycle (JObj [(''message'', JStr ''''), (''query'', JStr ''x'')])
               (JObj [(''q'', JStr ''y'')]) (JObj [(''_id'', JStr ''u1'')]) fresh_world"
  have a0: "JNum 0 = get_prop (req_body (req ?c0)) ''message''"
    "JStr '''' = get_prop (req_body (req ?c0)) ''query''"
    "JBool True = get_prop (req_query (req ?c0)) ''q''"
    "JBool True = (if truthy (JNum 0) then JNum 0 else if truthy (JStr '''') then JStr '''' else JBool True)"
    by (simp_all add: fresh_cycle_def)
  have b0: "\<forall>q. JBool True = JStr q \<longrightarrow> q = []" by simp
  have a1: "JStr '''' = get_prop (req_body (req ?c1)) ''message''"
    "JStr ''x'' = get_prop (req_body (req ?c1)) ''query''"
    "JStr ''y'' = get_prop (req_query (req ?c1)) ''q''"
    "JStr ''x'' = (if truthy (JStr '''') then JStr '''' else if truthy (JStr ''x'') then JStr ''x'' else JStr ''y'')"
    "JStr ''u1'' = (if truthy (get_prop (req_user (req ?c1)) ''id'') then get_prop (req_user (req ?c1)) ''id''
                else if truthy (get_prop (req_user (req ?c1)) ''_id'') then get_prop (req_user (req ?c1)) ''_id''
                else JStr '''')"
    by (simp_all add: fresh_cycle_def)
  have miss: "\<not> truthy (fst (getCachedQuery toy_runtime (JStr ''x'') (JStr ''u1'') (wld ?c1)))"
    by (simp add: getCachedQuery_string store_get_def fresh_cycle_def fresh_world_def Let_def)
  have cs: "calls (wld ?c1) = []" by (simp add: fresh_cycle_def fresh_world_def)
  have k: "createQueryCacheKey toy_runtime (JStr (String_trim toy_runtime ''x'')) (JStr ''u1'') = ''u1:x''"
    by (simp add: key_of_strings toy_runtime_fields trim_examples)
  from extraction_priority_and_participation [OF a0 refl, of toy_runtime] b0
  have p0: "queryCacheMiddleware toy_runtime ?c0 = call_next toy_runtime ?c0" by blast
  from extraction_priority_and_participation [OF a1, of toy_runtime] miss
  have p1: "(\<exists>rest. calls (wld (snd (queryCacheMiddleware toy_runtime ?c1)))
                      = calls (wld ?c1) @ StoreGet (createQueryCacheKey toy_runtime
                           (JStr (String_trim toy_runtime ''x'')) (JStr ''u1'')) # rest)
            \<and> req (snd (queryCacheMiddleware toy_runtime ?c1))
                   = (req ?c1)\<lparr>req_userQuery := JStr ''x'', req_userId := JStr ''u1''\<rparr>"
    by blast
  from p0 p1 show ?thesis unfolding k cs by simp
qed

lemma missed_cycle_eval:
  "missed_cycle =
   \<lparr> req = \<lparr> req_body = JObj [(''message'', JStr ''q'')], req_query = JUndefined,
              req_user = JUndefined, req_userQuery = JStr ''q'', req_userId = JStr '''' \<rparr>,
     res = \<lparr> res_statusCode = 200, res_json = OriginalJson, res_sent = [] \<rparr>,
     wld = fresh_world\<lparr>calls := [StoreGet '':q'']\<rparr>, next_calls = 1 \<rparr>"
  by (simp add: missed_cycle_def queryCacheMiddleware_def queryCacheMiddleware_try_def
        fresh_cycle_def extract_userQuery_def extract_userId_def
        js_or_def getCachedQuery_def getCachedQuery_try_def store_get_def fresh_world_def
        call_next_def Let_def trim_examples key_of_strings toy_runtime_fields default_param_def)

lemma cached_world_eval:
  "cached_world =
     fresh_world\<lparr>calls := [StoreSet '':q'' (make_entry toy_runtime (JNum 7) (JStr ''q'') (JStr '''') fresh_world) 600000],
                 contents := [('':q'') \<mapsto> (make_entry toy_runtime (JNum 7) (JStr ''q'') (JStr '''') fresh_world, 601000)]\<rparr>"
  by (simp add: cached_world_def setCachedQuery_def setCachedQuery_try_def store_set_def
        fresh_world_def Let_def trim_examples key_of_strings toy_runtime_fields default_param_def
        TEN_MINUTES_def)

lemma hit_cycle_facts:
  "extract_userQuery (req hit_cycle) = JStr '' q ''"
  "extract_userId (req hit_cycle) = JStr ''''"
  "store_up (wld hit_cycle)" "clock (wld hit_cycle) \<le> 601000"
  "contents (wld hit_cycle) '':q''
     = Some (make_entry toy_runtime (JNum 7) (JStr ''q'') (JStr '''') fresh_world, 601000)"
  "res_sent (res hit_cycle) = []" "next_calls hit_cycle = 0"
  "res_json (res hit_cycle) = OriginalJson"
  by (simp_all add: hit_cycle_def fresh_cycle_def extract_userQuery_def extract_userId_def js_or_def
        cached_world_eval fresh_world_def)

text \<open>
  Claim C4, as stated: for every request whose query identity is in the cache the
  interceptor answers from the cache and \<open>next\<close> is never invoked. The answer is sent
  inside the \<^verbatim>\<open>try\<close>, and the \<^verbatim>\<open>catch\<close> continues with
  \<^verbatim>\<open>next()\<close> ("Continue without caching on error"). With an Express whose
  \<^verbatim>\<open>res.json\<close> raises, the request of \<open>hit_cycle\<close> hits the entry stored for
  it, nothing is sent, and \<open>next\<close> is invoked.
\<close>

theorem hit_with_failing_send_counterexample:
  "extract_userQuery (req hit_cycle) = JStr '' q ''
   \<and> get_prop (fst (getCachedQuery failing_send (JStr '' q '') (JStr '''') (wld hit_cycle))) ''result''
       = JNum 7
   \<and> next_calls hit_cycle = 0
   \<and> next_calls (snd (queryCacheMiddleware failing_send hit_cycle)) = 1
   \<and> res_sent (res (snd (queryCacheMiddleware failing_send hit_cycle))) = []"
proof -
  have k: "createQueryCacheKey failing_send (JStr (String_trim failing_send '' q '')) (JStr '''') = '':q''"
    by (simp add: key_of_strings toy_runtime_fields trim_examples)
  have "fst (store_get '':q'' (wld hit_cycle))
          = Inr (make_entry toy_runtime (JNum 7) (JStr ''q'') (JStr '''') fresh_world)"
    by (rule store_get_live [OF hit_cycle_facts(3) hit_cycle_facts(5) hit_cycle_facts(4)])
  then have g: "fst (getCachedQuery failing_send (JStr '' q '') (JStr '''') (wld hit_cycle))
                  = make_entry toy_runtime (JNum 7) (JStr ''q'') (JStr '''') fresh_world"
    by (simp add: getCachedQuery_string k entry_truthy)
  obtain w' where gw: "getCachedQuery failing_send (JStr '' q '') (JStr '''') (wld hit_cycle)
                         = (make_entry toy_runtime (JNum 7) (JStr ''q'') (JStr '''') fresh_world, w')"
    using g by (cases "getCachedQuery failing_send (JStr '' q '') (JStr '''') (wld hit_cycle)") simp
  have "next_calls (snd (queryCacheMiddleware failing_send hit_cycle)) = 1
        \<and> res_sent (res (snd (queryCacheMiddleware failing_send hit_cycle))) = []"
    using gw
    by (simp add: queryCacheMiddleware_def queryCacheMiddleware_try_def Let_def hit_cycle_facts
          entry_truthy respond_def send_json_eq toy_runtime_fields call_next_def)
  with g show ?thesis by (simp add: hit_cycle_facts entry_fields)
qed

text \<open>
  Claim C4, amended: for every request whose query identity is present in the cache
  (the store is available and holds a live, truthy entry under the key of the trimmed
  query text and the requester's id), \<open>queryCacheMiddleware\<close> sets the status 200 and
  calls \<^verbatim>\<open>res.json\<close> with
  \<^verbatim>\<open>{success: true, data: entry.result, cached: true, timestamp: entry.timestamp}\<close>,
  the timestamp being the one the entry was stored with. When that call returns, the
  body is sent and \<open>next\<close> is not invoked: its counter stands where it stood. When
  that call raises, the exception is caught, nothing is sent and \<open>next\<close> is invoked
  once.
\<close>

theorem cache_hit_short_circuits:
  assumes uq: "extract_userQuery (req c) = JStr q" and ne: "q \<noteq> []"
    and up: "store_up (wld c)"
    and hit: "contents (wld c) (createQueryCacheKey rt (JStr (String_trim rt q)) (extract_userId (req c)))
               = Some (e, expires)"
    and live: "clock (wld c) \<le> expires" and te: "truthy e"
    and body: "body = JObj [(''success'', JBool True), (''data'', get_prop e ''result''),
                            (''cached'', JBool True), (''timestamp'', get_prop e ''timestamp'')]"
  shows "(\<not> express_json_raises rt ((res c)\<lparr>res_statusCode := 200\<rparr>) body \<longrightarrow>
            fst (queryCacheMiddleware rt c) = Inr ()
          \<and> next_calls (snd (queryCacheMiddleware rt c)) = next_calls c
          \<and> res_statusCode (res (snd (queryCacheMiddleware rt c))) = 200
          \<and> res_sent (res (snd (queryCacheMiddleware rt c))) = res_sent (res c) @ [body]
          \<and> req (snd (queryCacheMiddleware rt c)) = req c)
       \<and> (express_json_raises rt ((res c)\<lparr>res_statusCode := 200\<rparr>) body \<longrightarrow>
            next_calls (snd (queryCacheMiddleware rt c)) = next_calls c + 1
          \<and> res_sent (res (snd (queryCacheMiddleware rt c))) = res_sent (res c)
          \<and> req (snd (queryCacheMiddleware rt c)) = req c)"
proof -
  let ?k = "createQueryCacheKey rt (JStr (String_trim rt q)) (extract_userId (req c))"
  from up hit live have "fst (store_get ?k (wld c)) = Inr e"
    by (rule store_get_live)
  with ne te have g: "fst (getCachedQuery rt (JStr q) (extract_userId (req c)) (wld c)) = e"
    by (simp add: getCachedQuery_string)
  obtain w' where gw: "getCachedQuery rt (JStr q) (extract_userId (req c)) (wld c) = (e, w')"
    using g by (cases "getCachedQuery rt (JStr q) (extract_userId (req c)) (wld c)") simp
  have cr: "cached_response e = body" by (simp add: cached_response_def body)
  have mw: "queryCacheMiddleware rt c =
              (case respond rt 200 body (c\<lparr>wld := w'\<rparr>) of
                 (Inl x, c') \<Rightarrow> call_next rt c' | (Inr u, c') \<Rightarrow> (Inr u, c'))"
    using uq ne te gw by (simp add: queryCacheMiddleware_def queryCacheMiddleware_try_def Let_def cr)
  show ?thesis
    by (simp add: mw respond_def send_json_eq call_next_def Let_def)
qed

theorem cache_hit_short_circuits_witness:
  "extract_userQuery (req hit_cycle) = JStr '' q ''
   \<and> fst (queryCacheMiddleware toy_runtime hit_cycle) = Inr ()
   \<and> next_calls (snd (queryCacheMiddleware toy_runtime hit_cycle)) = 0
   \<and> res_statusCode (res (snd (queryCacheMiddleware toy_runtime hit_cycle))) = 200
   \<and> res_sent (res (snd (queryCacheMiddleware toy_runtime hit_cycle))) =
       [JObj [(''success'', JBool True), (''data'', JNum 7),
              (''cached'', JBool True), (''timestamp'', JStr ''T'')]]"
proof -
  let ?e = "make_entry toy_runtime (JNum 7) (JStr ''q'') (JStr '''') fresh_world"
  let ?body = "JObj [(''success'', JBool True), (''data'', get_prop ?e ''result''),
                     (''cached'', JBool True), (''timestamp'', get_prop ?e ''timestamp'')]"
  have h1: "extract_userQuery (req hit_cycle) = JStr '' q ''" by (rule hit_cycle_facts)
  have h2: "'' q '' \<noteq> []" by simp
  have h3: "store_up (wld hit_cycle)" by (rule hit_cycle_facts)
  have k: "createQueryCacheKey toy_runtime (JStr (String_trim toy_runtime '' q ''))
             (extract_userId (req hit_cycle)) = '':q''"
    by (simp add: hit_cycle_facts key_of_strings toy_runtime_fields trim_examples)
  have h4: "contents (wld hit_cycle)
              (createQueryCacheKey toy_runtime (JStr (String_trim toy_runtime '' q ''))
                 (extract_userId (req hit_cycle))) = Some (?e, 601000)"
    unfolding k by (rule hit_cycle_facts)
  have h5: "clock (wld hit_cycle) \<le> 601000" by (rule hit_cycle_facts)
  have h6: "truthy ?e" by (rule entry_truthy)
  have nr: "\<not> express_json_raises toy_runtime ((res hit_cycle)\<lparr>res_statusCode := 200\<rparr>) ?body"
    by (simp add: toy_runtime_fields)
  from cache_hit_short_circuits [OF h1 h2 h3 h4 h5 h6 refl] nr h1
  show ?thesis
    by (simp add: hit_cycle_facts entry_fields toy_runtime_fields)
qed

text \<open>
  Claim C5. For every request, with or without the marker and whatever \<open>json\<close> method
  the response has, a response whose status is not 200 (500, for one) or whose body has
  no truthy \<open>data\<close> leaves the world as it was: no store operation is started.
\<close>

theorem no_write_unless_qualifying:
  assumes "s \<noteq> 200 \<or> \<not> truthy (get_prop b ''data'')"
  shows "wld (snd (respond rt s b c)) = wld c"
proof -
  let ?c = "c\<lparr>res := (res c)\<lparr>res_statusCode := s\<rparr>\<rparr>"
  from assms have "\<not> qualifies (res ?c) b" by (auto simp: qualifies_def)
  then have "snd (snd (call_json rt (res_json (res ?c)) (req ?c) (res ?c) b (wld ?c))) = wld ?c"
    by (rule call_json_not_qualifying)
  then show ?thesis by (simp add: respond_def send_json_eq)
qed

theorem no_write_unless_qualifying_witness:
  "req_userQuery (req (snd (cacheResponseMiddleware toy_runtime missed_cycle))) = JStr ''q''
   \<and> res_json (res (snd (cacheResponseMiddleware toy_runtime missed_cycle))) = CachingJson OriginalJson
   \<and> truthy (get_prop (JObj [(''data'', JNum 1)]) ''data'')
   \<and> wld (snd (respond toy_runtime 500 (JObj [(''data'', JNum 1)])
                  (snd (cacheResponseMiddleware toy_runtime missed_cycle))))
       = wld (snd (cacheResponseMiddleware toy_runtime missed_cycle))"
proof -
  have h: "(500::nat) \<noteq> 200 \<or> \<not> truthy (get_prop (JObj [(''data'', JNum 1)]) ''data'')" by simp
  have m: "req_userQuery (req (snd (cacheResponseMiddleware toy_runtime missed_cycle))) = JStr ''q''
     \<and> res_json (res (snd (cacheResponseMiddleware toy_runtime missed_cycle))) = CachingJson OriginalJson"
    by (simp add: missed_cycle_eval cacheResponseMiddleware_def call_next_def Let_def)
  from no_write_unless_qualifying
         [OF h, of toy_runtime "snd (cacheResponseMiddleware toy_runtime missed_cycle)"] m
  show ?thesis by simp
qed

text \<open>
  Claim C10. For a request that carries the marker (a non-empty string, as
  \<open>queryCacheMiddleware\<close> attaches it) and a response whose \<open>json\<close> is Express's own
  when \<open>cacheResponseMiddleware\<close> runs: when the handler answers with status \<open>s\<close> and
  body \<open>b\<close>, a store write is started if and only if \<open>s\<close> is exactly 200 and
  \<open>b.data\<close> is truthy. The log grows by that one \<open>StoreSet\<close>, or not at all.
\<close>

theorem write_iff_status_200_and_truthy_data:
  assumes "req_userQuery (req c) = JStr q" and "q \<noteq> []" and "res_json (res c) = OriginalJson"
  shows "calls (wld (snd (respond rt s b (snd (cacheResponseMiddleware rt c))))) =
           calls (wld c) @
             (if s = 200 \<and> truthy (get_prop b ''data'')
              then [StoreSet (createQueryCacheKey rt (JStr (String_trim rt q)) (js_or (req_userId (req c)) (JStr '''')))
                       (make_entry rt (get_prop b ''data'') (JStr q)
                          (js_or (req_userId (req c)) (JStr '''')) (wld c))
                       TEN_MINUTES]
              else [])
       \<and> ((calls (wld (snd (respond rt s b (snd (cacheResponseMiddleware rt c))))) \<noteq> calls (wld c))
            = (s = 200 \<and> truthy (get_prop b ''data'')))"
proof -
  let ?u = "js_or (req_userId (req c)) (JStr '''')"
  have u: "default_param ?u (JStr '''') = ?u"
    by (simp add: default_param_def js_or_def)
  have log: "calls (wld (snd (respond rt s b (snd (cacheResponseMiddleware rt c))))) =
           calls (wld c) @
             (if s = 200 \<and> truthy (get_prop b ''data'')
              then [StoreSet (createQueryCacheKey rt (JStr (String_trim rt q)) ?u)
                       (make_entry rt (get_prop b ''data'') (JStr q) ?u (wld c))
                       TEN_MINUTES]
              else [])"
    using assms
    by (simp add: respond_def send_json_eq cacheResponseMiddleware_def call_next_def Let_def
          qualifies_def setCachedQuery_calls truthy_not_undefined u)
  then show ?thesis by auto
qed

theorem write_iff_status_200_and_truthy_data_witness:
  "req_userQuery (req missed_cycle) = JStr ''q''
   \<and> res_json (res missed_cycle) = OriginalJson
   \<and> calls (wld (snd (respond toy_runtime 200 (JObj [(''data'', JNum 1)])
                        (snd (cacheResponseMiddleware toy_runtime missed_cycle)))))
       = [StoreGet '':q'',
          StoreSet '':q'' (JObj [(''result'', JNum 1), (''query'', JStr ''q''),
                                 (''timestamp'', JStr ''T''), (''userId'', JStr '''')]) 600000]
   \<and> calls (wld (snd (respond toy_runtime 201 (JObj [(''data'', JNum 1)])
                        (snd (cacheResponseMiddleware toy_runtime missed_cycle)))))
       = [StoreGet '':q'']
   \<and> calls (wld (snd (respond toy_runtime 200 (JObj [(''data'', JNum 0)])
                        (snd (cacheResponseMiddleware toy_runtime missed_cycle)))))
       = [StoreGet '':q'']"
proof -
  have h1: "req_userQuery (req missed_cycle) = JStr ''q''"
    by (simp add: missed_cycle_eval)
  have h2: "''q'' \<noteq> []" by simp
  have h3: "res_json (res missed_cycle) = OriginalJson"
    by (simp add: missed_cycle_eval)
  have f: "calls (wld missed_cycle) = [StoreGet '':q'']" "req_userId (req missed_cycle) = JStr ''''"
    "clock (wld missed_cycle) = 1000"
    unfolding missed_cycle_eval by (simp_all add: fresh_world_def)
  from write_iff_status_200_and_truthy_data [OF h1 h2 h3, of toy_runtime 200 "JObj [(''data'', JNum 1)]"]
       write_iff_status_200_and_truthy_data [OF h1 h2 h3, of toy_runtime 201 "JObj [(''data'', JNum 1)]"]
       write_iff_status_200_and_truthy_data [OF h1 h2 h3, of toy_runtime 200 "JObj [(''data'', JNum 0)]"]
       h1 h3 f
  show ?thesis
    by (simp add: js_or_def key_of_strings trim_examples make_entry_def toy_runtime_fields TEN_MINUTES_def)
qed

end
